theory Spec2Isabelle
  imports Main
begin

section \<open>Data model (the type declarations of the game)\<close>

text \<open>
  JavaScript numbers that hold counts, hit points and rewards are modelled as \<open>int\<close>.
  The string-literal unions of the type declarations become datatypes, the interfaces
  become records, an optional field \<open>f?: T\<close> becomes \<open>T option\<close>, and \<open>T | null\<close>
  becomes \<open>T option\<close> as well.
\<close>

text \<open>
  \<open>UnlistedClass\<close> stands for any run-time value outside the declared union
  \<open>'Warrior' | 'Mage' | 'Rogue' | 'Cleric'\<close>; it is what reaches the \<open>default\<close> arm of
  \<open>getBaseStats\<close> and falls through the class chain of \<open>gainExperience\<close>.
\<close>

datatype CharacterClass = Warrior | Mage | Rogue | Cleric | UnlistedClass

datatype CharacterRelic = BladeOfEmber | StaffOfWhispers | ShadowCloak | DivineAmulet

datatype ItemType = Weapon | Armor | Potion | QuestItem | Misc

datatype Rarity = Common | Uncommon | Rare | Epic | Legendary

datatype EffectType = Heal | Damage | Buff | Debuff

datatype EffectTarget = Self | EnemyTarget | Allies

datatype AbilityType = AttackAbility | HealAbility | BuffAbility | DebuffAbility | UtilityAbility

datatype Attitude = Friendly | Neutral | Hostile

datatype ObjectiveType = Kill | Collect | Interact | Explore

datatype RewardType = ExperienceReward | GoldReward | ItemReward

datatype LogType = Narrative | Dialog | Combat | System

record Stats =
  strength :: int
  dexterity :: int
  constitution :: int
  intelligence :: int
  wisdom :: int
  charisma :: int

record EnemyStats =
  enemy_strength :: int
  enemy_dexterity :: int
  enemy_constitution :: int

record Ability =
  ability_id :: string
  ability_name :: string
  ability_description :: string
  ability_damage :: "int option"
  ability_healing :: "int option"
  manaCost :: int
  cooldown :: int
  aoe :: bool
  ability_type :: AbilityType

record ItemEffect =
  effect_type :: EffectType
  effect_target :: EffectTarget
  effect_amount :: int
  effect_duration :: "int option"

record Item =
  item_id :: string
  item_name :: string
  item_description :: string
  item_type :: ItemType
  item_rarity :: Rarity
  item_value :: int
  item_effects :: "ItemEffect list option"
  usable :: bool

record QuestObjective =
  objective_id :: string
  objective_description :: string
  objective_type :: ObjectiveType
  objective_target :: string
  objective_count :: int
  objective_progress :: int
  objective_isCompleted :: bool

record QuestReward =
  reward_type :: RewardType
  reward_amount :: int
  reward_item :: "Item option"

record Quest =
  quest_id :: string
  quest_name :: string
  quest_description :: string
  objectives :: "QuestObjective list"
  rewards :: "QuestReward list"
  isCompleted :: bool
  isActive :: bool

record DialogResponse =
  response_id :: string
  response_text :: string
  response_condition :: "string option"
  response_action :: "string option"

record DialogOption =
  option_id :: string
  option_text :: string
  playerResponse :: "string list"
  responses :: "DialogResponse list"

record NPC =
  npc_id :: string
  npc_name :: string
  npc_description :: string
  attitude :: Attitude
  dialog :: "DialogOption list"
  npc_quests :: "Quest list option"
  shop :: "Item list option"

record Enemy =
  enemy_id :: string
  enemy_name :: string
  enemy_description :: string
  enemy_level :: int
  enemy_health :: int
  enemy_maxHealth :: int
  enemy_stats :: EnemyStats
  enemy_abilities :: "Ability list"
  drops :: "Item list"
  enemy_experience :: int
  enemy_gold :: int

record Character =
  char_id :: string
  char_name :: string
  char_description :: string
  char_class :: CharacterClass
  relic :: CharacterRelic
  level :: int
  experience :: int
  health :: int
  maxHealth :: int
  mana :: int
  maxMana :: int
  inventory :: "Item list"
  stats :: Stats
  abilities :: "Ability list"
  gold :: int

record Location =
  loc_id :: string
  loc_name :: string
  loc_description :: string
  loc_image :: "string option"
  connections :: "string list"
  loc_npcs :: "NPC list option"
  loc_enemies :: "Enemy list option"
  loc_items :: "Item list option"
  loc_quests :: "Quest list option"

text \<open>
  The value that the lookup \<open>locations[locationId]\<close> returns and that the store keeps
  as current location. The declared type is \<open>Location | null\<close>, but \<open>locations\<close> is a
  plain object literal, and a bracket lookup on it also finds the members that every
  object inherits from \<open>Object.prototype\<close>. Such a member is represented by the key it
  was found under.
\<close>

datatype LocationValue = CatalogLocation Location | InheritedMember string

text \<open>
  The text of a log entry is a template string in the source. Each template is one
  constructor here, carrying the interpolated values, so that no number formatting has to
  be modelled.
\<close>

datatype LogText =
    UsedItemText string int
  | LevelUpText int int
  | GainedExperienceText int
  | MovedText string
  | CombatStartedText "string list"
  | CombatEndedText int int
  | HitText string int
  | DefeatedText string
  | EnemiesAttackText int
  | PlayerDefeatedText
  | AdventureBeginsText

text \<open>
  A log entry also carries a fresh \<open>uuidv4()\<close> identifier and the \<open>Date.now()\<close> time
  stamp. Both come from the environment and no operation reads them back, so an entry
  is represented by its text and its type.
\<close>

record GameLogEntry =
  log_text :: LogText
  log_type :: LogType

record CombatState =
  inCombat :: bool
  enemies :: "Enemy list"
  playerTurn :: bool
  round :: int
  combatLog :: "string list"

record GameState =
  character :: "Character option"
  currentLocation :: "LocationValue option"
  gameLog :: "GameLogEntry list"
  quests :: "Quest list"
  combat :: "CombatState option"
  visitedLocations :: "string list"
  gameTime :: int

section \<open>The world catalog\<close>

definition shadowWolf :: Enemy where
  "shadowWolf = \<lparr>
     enemy_id = ''wolf1'',
     enemy_name = ''Shadow Wolf'',
     enemy_description = ''A wolf with fur as black as midnight and eyes that glow with an unnatural red light.'',
     enemy_level = 1,
     enemy_health = 15,
     enemy_maxHealth = 15,
     enemy_stats = \<lparr>enemy_strength = 3, enemy_dexterity = 4, enemy_constitution = 2\<rparr>,
     enemy_abilities = [],
     drops = [],
     enemy_experience = 10,
     enemy_gold = 0\<rparr>"

definition reanimatedSkeleton :: Enemy where
  "reanimatedSkeleton = \<lparr>
     enemy_id = ''skeleton1'',
     enemy_name = ''Reanimated Skeleton'',
     enemy_description = ''A skeleton animated by dark magic, its bones yellowed with age. It clutches a rusted sword in its bony hands.'',
     enemy_level = 2,
     enemy_health = 20,
     enemy_maxHealth = 20,
     enemy_stats = \<lparr>enemy_strength = 4, enemy_dexterity = 2, enemy_constitution = 3\<rparr>,
     enemy_abilities = [],
     drops = [],
     enemy_experience = 20,
     enemy_gold = 5\<rparr>"

definition village :: Location where
  "village = \<lparr>
     loc_id = ''village'',
     loc_name = ''Eldermoor Village'',
     loc_description = ''A small, dreary settlement shrouded in perpetual twilight. Dilapidated wooden buildings line the muddy streets, and villagers hurry about with wary eyes.'',
     loc_image = None,
     connections = [''forest'', ''tavern'', ''blacksmith''],
     loc_npcs = Some [],
     loc_enemies = None,
     loc_items = None,
     loc_quests = None\<rparr>"

definition tavern :: Location where
  "tavern = \<lparr>
     loc_id = ''tavern'',
     loc_name = ''The Howling Wolf Tavern'',
     loc_description = ''A dimly lit tavern with rough-hewn wooden tables and the smell of stale ale. A few patrons huddle in corners, speaking in hushed tones.'',
     loc_image = None,
     connections = [''village''],
     loc_npcs = Some [],
     loc_enemies = None,
     loc_items = None,
     loc_quests = None\<rparr>"

definition forest :: Location where
  "forest = \<lparr>
     loc_id = ''forest'',
     loc_name = ''The Whispering Woods'',
     loc_description = ''Ancient trees loom overhead, their twisted branches blocking what little light filters through the perpetual mist. Strange sounds echo from deep within.'',
     loc_image = None,
     connections = [''village'', ''ruins''],
     loc_npcs = None,
     loc_enemies = Some [shadowWolf],
     loc_items = None,
     loc_quests = None\<rparr>"

definition blacksmith :: Location where
  "blacksmith = \<lparr>
     loc_id = ''blacksmith'',
     loc_name = ''The Smoldering Forge'',
     loc_description = ''A soot-covered workshop where the village blacksmith crafts weapons and armor. The heat from the forge provides rare warmth in this cold place.'',
     loc_image = None,
     connections = [''village''],
     loc_npcs = Some [],
     loc_enemies = None,
     loc_items = None,
     loc_quests = None\<rparr>"

definition ruins :: Location where
  "ruins = \<lparr>
     loc_id = ''ruins'',
     loc_name = ''Ancient Temple Ruins'',
     loc_description = ''Crumbling stone structures covered in strange symbols. The air here feels charged with forgotten magic.'',
     loc_image = None,
     connections = [''forest'', ''crypt''],
     loc_npcs = None,
     loc_enemies = Some [],
     loc_items = None,
     loc_quests = None\<rparr>"

definition crypt :: Location where
  "crypt = \<lparr>
     loc_id = ''crypt'',
     loc_name = ''The Forgotten Crypt'',
     loc_description = ''A dark, underground chamber filled with ancient sarcophagi. The walls are adorned with faded murals depicting strange rituals.'',
     loc_image = None,
     connections = [''ruins''],
     loc_npcs = None,
     loc_enemies = Some [reanimatedSkeleton],
     loc_items = None,
     loc_quests = None\<rparr>"

text \<open>
  \<open>locations\<close> is a \<open>Record<string, Location>\<close> literal. The map below holds its own
  keys: these are the ids of the world catalog.
\<close>

definition locations :: "string \<rightharpoonup> Location" where
  "locations = map_of [
     (''village'', village),
     (''tavern'', tavern),
     (''forest'', forest),
     (''blacksmith'', blacksmith),
     (''ruins'', ruins),
     (''crypt'', crypt)]"

text \<open>
  The property names of \<open>Object.prototype\<close>, which the object literal inherits. Each of
  them is bound to a function, but for \<open>__proto__\<close>, which yields the prototype object
  itself; all of these values are truthy.
\<close>

definition objectPrototypeKeys :: "string list" where
  "objectPrototypeKeys = [
     ''constructor'',
     ''__defineGetter__'',
     ''__defineSetter__'',
     ''hasOwnProperty'',
     ''__lookupGetter__'',
     ''__lookupSetter__'',
     ''isPrototypeOf'',
     ''propertyIsEnumerable'',
     ''toString'',
     ''valueOf'',
     ''__proto__'',
     ''toLocaleString'']"

text \<open>
  The bracket lookup \<open>locations[locationId]\<close>: an own key wins, then the prototype is
  searched, and \<open>undefined\<close> (here \<open>None\<close>) is the result for every other string.
\<close>

definition locations_lookup :: "string \<Rightarrow> LocationValue option" where
  "locations_lookup locationId =
     (case locations locationId of
        Some location \<Rightarrow> Some (CatalogLocation location)
      | None \<Rightarrow>
          if locationId \<in> set objectPrototypeKeys then Some (InheritedMember locationId)
          else None)"

text \<open>
  The reads \<open>location.enemies\<close> and \<open>location.name\<close> on a looked-up value. An inherited
  member has no \<open>enemies\<close> property. Its \<open>name\<close> is the name of the function: \<open>Object\<close>
  for \<open>constructor\<close>, the key itself for the other functions; the prototype object
  found under \<open>__proto__\<close> has no \<open>name\<close>, and the template string prints
  \<open>undefined\<close> for it.
\<close>

definition location_enemies :: "LocationValue \<Rightarrow> Enemy list option" where
  "location_enemies location =
     (case location of
        CatalogLocation l \<Rightarrow> loc_enemies l
      | InheritedMember k \<Rightarrow> None)"

definition location_name :: "LocationValue \<Rightarrow> string" where
  "location_name location =
     (case location of
        CatalogLocation l \<Rightarrow> loc_name l
      | InheritedMember k \<Rightarrow>
          if k = ''constructor'' then ''Object''
          else if k = ''__proto__'' then ''undefined''
          else k)"

section \<open>Helpers\<close>

definition getBaseStats :: "CharacterClass \<Rightarrow> Stats" where
  "getBaseStats characterClass =
     (case characterClass of
        Warrior \<Rightarrow> \<lparr>strength = 8, dexterity = 5, constitution = 7,
                     intelligence = 3, wisdom = 4, charisma = 5\<rparr>
      | Mage \<Rightarrow> \<lparr>strength = 3, dexterity = 4, constitution = 4,
                  intelligence = 8, wisdom = 7, charisma = 6\<rparr>
      | Rogue \<Rightarrow> \<lparr>strength = 5, dexterity = 8, constitution = 5,
                   intelligence = 6, wisdom = 4, charisma = 6\<rparr>
      | Cleric \<Rightarrow> \<lparr>strength = 5, dexterity = 4, constitution = 6,
                    intelligence = 5, wisdom = 8, charisma = 7\<rparr>
      | UnlistedClass \<Rightarrow> \<lparr>strength = 5, dexterity = 5, constitution = 5,
                           intelligence = 5, wisdom = 5, charisma = 5\<rparr>)"

text \<open>
  \<open>calculateDamage\<close> draws \<open>Math.floor(Math.random() * 4)\<close>; the drawn value, one of
  0, 1, 2, 3, is the parameter \<open>roll\<close>. On integers \<open>Math.floor(b * 1.5)\<close> is
  \<open>(b * 3) div 2\<close> (\<open>div\<close> on \<open>int\<close> rounds down, as \<open>Math.floor\<close> does).
\<close>

definition calculateDamage :: "int \<Rightarrow> int \<Rightarrow> bool \<Rightarrow> int \<Rightarrow> int" where
  "calculateDamage strength' dexterity' isRanged roll =
     (let baseDamage = (if isRanged then dexterity' else strength')
      in (baseDamage * 3) div 2 + roll)"

text \<open>\<open>Array.prototype.findIndex\<close>: the first index whose element satisfies the test;
  the result \<open>-1\<close> of the source is \<open>None\<close>.\<close>

fun findIndex :: "('a \<Rightarrow> bool) \<Rightarrow> 'a list \<Rightarrow> nat option" where
  "findIndex P [] = None"
| "findIndex P (x # xs) = (if P x then Some 0 else map_option Suc (findIndex P xs))"

section \<open>The store and its actions\<close>

definition initialState :: GameState where
  "initialState = \<lparr>
     character = None,
     currentLocation = None,
     gameLog = [],
     quests = [],
     combat = None,
     visitedLocations = [],
     gameTime = 0\<rparr>"

definition addToGameLog :: "LogText \<Rightarrow> LogType \<Rightarrow> GameState \<Rightarrow> GameState" where
  "addToGameLog text' type' s =
     s\<lparr>gameLog := gameLog s @ [\<lparr>log_text = text', log_type = type'\<rparr>]\<rparr>"

text \<open>The identifier \<open>uuidv4()\<close> of the new character is the parameter \<open>newId\<close>.\<close>

definition createNewCharacter ::
  "string \<Rightarrow> string \<Rightarrow> string \<Rightarrow> CharacterClass \<Rightarrow> CharacterRelic \<Rightarrow> GameState \<Rightarrow> GameState" where
  "createNewCharacter newId name description characterClass relic' s =
     (let baseStats = getBaseStats characterClass;
          initialHealth = 20 + constitution baseStats * 5;
          initialMana = intelligence baseStats * 10;
          newCharacter = \<lparr>
            char_id = newId,
            char_name = name,
            char_description = description,
            char_class = characterClass,
            relic = relic',
            level = 1,
            experience = 0,
            health = initialHealth,
            maxHealth = initialHealth,
            mana = initialMana,
            maxMana = initialMana,
            inventory = [],
            stats = baseStats,
            abilities = [],
            gold = 10\<rparr>
      in s\<lparr>character := Some newCharacter\<rparr>)"

definition addItemToInventory :: "Item \<Rightarrow> GameState \<Rightarrow> GameState" where
  "addItemToInventory item s =
     (case character s of
        None \<Rightarrow> s
      | Some character' \<Rightarrow>
          s\<lparr>character := Some (character'\<lparr>inventory := inventory character' @ [item]\<rparr>)\<rparr>)"

definition removeItemFromInventory :: "string \<Rightarrow> GameState \<Rightarrow> GameState" where
  "removeItemFromInventory itemId s =
     (case character s of
        None \<Rightarrow> s
      | Some character' \<Rightarrow>
          s\<lparr>character := Some (character'\<lparr>inventory :=
               filter (\<lambda>item. item_id item \<noteq> itemId) (inventory character')\<rparr>)\<rparr>)"

text \<open>
  The body of the \<open>forEach\<close> over \<open>item.effects\<close> in \<open>useItem\<close>. The \<open>character\<close> it
  reads and spreads is the constant bound at the top of \<open>useItem\<close>, before the loop, and
  not the character of the current store: that constant is the first argument here.
\<close>

definition useItem_effect :: "Character \<Rightarrow> Item \<Rightarrow> ItemEffect \<Rightarrow> GameState \<Rightarrow> GameState" where
  "useItem_effect character' item effect s =
     (if effect_type effect = Heal \<and> effect_target effect = Self then
        let newHealth = min (health character' + effect_amount effect) (maxHealth character')
        in addToGameLog (UsedItemText (item_name item) (effect_amount effect)) System
             (s\<lparr>character := Some (character'\<lparr>health := newHealth\<rparr>)\<rparr>)
      else s)"

definition useItem :: "string \<Rightarrow> GameState \<Rightarrow> GameState" where
  "useItem itemId s =
     (case character s of
        None \<Rightarrow> s
      | Some character' \<Rightarrow>
          (case find (\<lambda>i. item_id i = itemId) (inventory character') of
             None \<Rightarrow> s
           | Some item \<Rightarrow>
               if \<not> usable item then s
               else
                 let s1 = (case item_effects item of
                             None \<Rightarrow> s
                           | Some effects \<Rightarrow> fold (useItem_effect character' item) effects s)
                 in removeItemFromInventory itemId s1))"

text \<open>The class chain of \<open>gainExperience\<close> that grows the copied stat block.\<close>

definition gainExperience_newStats :: "CharacterClass \<Rightarrow> Stats \<Rightarrow> Stats" where
  "gainExperience_newStats cls newStats =
     (if cls = Warrior then
        newStats\<lparr>strength := strength newStats + 2, constitution := constitution newStats + 1\<rparr>
      else if cls = Mage then
        newStats\<lparr>intelligence := intelligence newStats + 2, wisdom := wisdom newStats + 1\<rparr>
      else if cls = Rogue then
        newStats\<lparr>dexterity := dexterity newStats + 2, charisma := charisma newStats + 1\<rparr>
      else if cls = Cleric then
        newStats\<lparr>wisdom := wisdom newStats + 2, constitution := constitution newStats + 1\<rparr>
      else newStats)"

definition gainExperience :: "int \<Rightarrow> GameState \<Rightarrow> GameState" where
  "gainExperience amount s =
     (case character s of
        None \<Rightarrow> s
      | Some character' \<Rightarrow>
          let newExperience = experience character' + amount;
              experienceToNextLevel = level character' * 100
          in if newExperience \<ge> experienceToNextLevel then
               let newLevel = level character' + 1;
                   remainingExperience = newExperience - experienceToNextLevel;
                   newStats = gainExperience_newStats (char_class character') (stats character');
                   newMaxHealth = 20 + constitution newStats * 5;
                   newMaxMana = intelligence newStats * 10
               in addToGameLog (LevelUpText amount newLevel) System
                    (s\<lparr>character := Some (character'\<lparr>
                         level := newLevel,
                         experience := remainingExperience,
                         maxHealth := newMaxHealth,
                         health := newMaxHealth,
                         maxMana := newMaxMana,
                         mana := newMaxMana,
                         stats := newStats\<rparr>)\<rparr>)
             else
               addToGameLog (GainedExperienceText amount) System
                 (s\<lparr>character := Some (character'\<lparr>experience := newExperience\<rparr>)\<rparr>))"

text \<open>
  \<open>JSON.parse(JSON.stringify(enemies))\<close> copies the roster; on immutable values the copy
  is the roster itself.
\<close>

definition startCombat :: "Enemy list \<Rightarrow> GameState \<Rightarrow> GameState" where
  "startCombat enemies' s =
     (let combatState = \<lparr>
            inCombat = True,
            enemies = enemies',
            playerTurn = True,
            round = 1,
            combatLog = []\<rparr>
      in addToGameLog (CombatStartedText (map enemy_name enemies')) Combat
           (s\<lparr>combat := Some combatState\<rparr>))"

text \<open>
  \<open>moveToLocation\<close> draws \<open>Math.random() < 0.3\<close> when the location has enemies; the
  outcome of that test is the parameter \<open>encounterRoll\<close>. The guard
  \<open>if (!location) return\<close> tests the looked-up value, whatever it is.
\<close>

definition moveToLocation :: "string \<Rightarrow> bool \<Rightarrow> GameState \<Rightarrow> GameState" where
  "moveToLocation locationId encounterRoll s =
     (case locations_lookup locationId of
        None \<Rightarrow> s
      | Some location \<Rightarrow>
          let newVisitedLocations =
                (if locationId \<in> set (visitedLocations s) then visitedLocations s
                 else visitedLocations s @ [locationId]);
              hasEnemies = (case location_enemies location of
                              None \<Rightarrow> False
                            | Some es \<Rightarrow> length es > 0);
              randomEncounter = (hasEnemies \<and> encounterRoll);
              s1 = s\<lparr>currentLocation := Some location,
                     visitedLocations := newVisitedLocations\<rparr>;
              s2 = addToGameLog (MovedText (location_name location)) Narrative s1
          in if randomEncounter then
               (case location_enemies location of
                  None \<Rightarrow> s2
                | Some es \<Rightarrow> startCombat es s2)
             else s2)"

text \<open>
  The body of the \<open>forEach\<close> over the roster in \<open>endCombat\<close>: the two running totals and
  the store, which \<open>addItemToInventory\<close> updates for every dropped item.
\<close>

definition endCombat_enemy :: "Enemy \<Rightarrow> int \<times> int \<times> GameState \<Rightarrow> int \<times> int \<times> GameState" where
  "endCombat_enemy enemy acc =
     (case acc of (totalExperience, totalGold, s) \<Rightarrow>
        (totalExperience + enemy_experience enemy,
         totalGold + enemy_gold enemy,
         if length (drops enemy) > 0 then fold addItemToInventory (drops enemy) s else s))"

text \<open>
  In \<open>endCombat\<close> the gold is written with a spread of the \<open>character\<close> constant bound
  at the top of the action, before the drops were added and the experience gained.
\<close>

definition endCombat :: "GameState \<Rightarrow> GameState" where
  "endCombat s =
     (case combat s of
        None \<Rightarrow> s
      | Some combat' \<Rightarrow>
          (case character s of
             None \<Rightarrow> s
           | Some character' \<Rightarrow>
               (case fold endCombat_enemy (enemies combat') (0, 0, s) of
                  (totalExperience, totalGold, s1) \<Rightarrow>
                    let s2 = gainExperience totalExperience s1;
                        s3 = s2\<lparr>character := Some (character'\<lparr>gold := gold character' + totalGold\<rparr>)\<rparr>;
                        s4 = addToGameLog (CombatEndedText totalExperience totalGold) Combat s3
                    in s4\<lparr>combat := None\<rparr>)))"

text \<open>
  \<open>attackEnemy\<close> up to and including its first \<open>set\<close>: the blow is applied to the
  roster, the player's turn ends and the round is counted. \<open>combat'\<close> and \<open>character'\<close>
  are the constants bound at the top of the action, \<open>enemyIndex\<close> the index found.
\<close>

definition attackEnemy_newHealth :: "CombatState \<Rightarrow> Character \<Rightarrow> nat \<Rightarrow> int \<Rightarrow> int" where
  "attackEnemy_newHealth combat' character' enemyIndex roll =
     (let enemy = enemies combat' ! enemyIndex;
          damage = calculateDamage (strength (stats character')) (dexterity (stats character')) False roll
      in max 0 (enemy_health enemy - damage))"

definition attackEnemy_newEnemies :: "CombatState \<Rightarrow> Character \<Rightarrow> nat \<Rightarrow> int \<Rightarrow> Enemy list" where
  "attackEnemy_newEnemies combat' character' enemyIndex roll =
     (let enemy = enemies combat' ! enemyIndex;
          newEnemyHealth = attackEnemy_newHealth combat' character' enemyIndex roll
      in (enemies combat')[enemyIndex := enemy\<lparr>enemy_health := newEnemyHealth\<rparr>])"

definition attackEnemy_blow :: "CombatState \<Rightarrow> Character \<Rightarrow> nat \<Rightarrow> int \<Rightarrow> GameState \<Rightarrow> GameState" where
  "attackEnemy_blow combat' character' enemyIndex roll s =
     (let newEnemyHealth = attackEnemy_newHealth combat' character' enemyIndex roll;
          newEnemies = attackEnemy_newEnemies combat' character' enemyIndex roll
      in s\<lparr>combat := Some (combat'\<lparr>
             enemies := newEnemies,
             playerTurn := False,
             round := (if newEnemyHealth \<le> 0 then round combat' else round combat' + 1)\<rparr>)\<rparr>)"

text \<open>
  \<open>attackEnemy\<close> returns the new store and whether it scheduled the enemies' turn with
  \<open>setTimeout\<close>. The parameter \<open>abilityName\<close> is not read by the source. \<open>roll\<close> is the
  damage roll of \<open>calculateDamage\<close>.
\<close>

definition attackEnemy :: "string \<Rightarrow> string \<Rightarrow> int \<Rightarrow> GameState \<Rightarrow> GameState \<times> bool" where
  "attackEnemy enemyId abilityName roll s =
     (case combat s of
        None \<Rightarrow> (s, False)
      | Some combat' \<Rightarrow>
          (case character s of
             None \<Rightarrow> (s, False)
           | Some character' \<Rightarrow>
               (case findIndex (\<lambda>e. enemy_id e = enemyId) (enemies combat') of
                  None \<Rightarrow> (s, False)
                | Some enemyIndex \<Rightarrow>
                    let enemy = enemies combat' ! enemyIndex;
                        damage = calculateDamage (strength (stats character'))
                                   (dexterity (stats character')) False roll;
                        newEnemyHealth = attackEnemy_newHealth combat' character' enemyIndex roll;
                        newEnemies = attackEnemy_newEnemies combat' character' enemyIndex roll;
                        s1 = attackEnemy_blow combat' character' enemyIndex roll s;
                        s2 = addToGameLog (HitText (enemy_name enemy) damage) Combat s1
                    in if newEnemyHealth \<le> 0 then
                         let s3 = addToGameLog (DefeatedText (enemy_name enemy)) Combat s2;
                             remainingEnemies = filter (\<lambda>e. enemy_health e > 0) newEnemies
                         in if length remainingEnemies = 0 then (endCombat s3, False)
                            else (s3\<lparr>combat := Some (combat'\<lparr>
                                       enemies := remainingEnemies,
                                       playerTurn := True\<rparr>)\<rparr>, False)
                       else (s2, True))))"

text \<open>
  The callback that \<open>attackEnemy\<close> hands to \<open>setTimeout\<close>. It takes no argument and reads
  the store with \<open>get()\<close> when it runs. On integers \<open>Math.floor(n * 1.2)\<close> is
  \<open>(n * 6) div 5\<close>.
\<close>

definition enemyTurn :: "GameState \<Rightarrow> GameState" where
  "enemyTurn s =
     (case combat s of
        None \<Rightarrow> s
      | Some combat' \<Rightarrow>
          (case character s of
             None \<Rightarrow> s
           | Some character' \<Rightarrow>
               let totalDamage = fold (\<lambda>enemy totalDamage.
                                         totalDamage + max 1 ((enemy_strength (enemy_stats enemy) * 6) div 5))
                                   (enemies combat') 0;
                   newHealth = max 0 (health character' - totalDamage);
                   s1 = s\<lparr>character := Some (character'\<lparr>health := newHealth\<rparr>),
                          combat := Some (combat'\<lparr>playerTurn := True\<rparr>)\<rparr>;
                   s2 = addToGameLog (EnemiesAttackText totalDamage) Combat s1
               in if newHealth \<le> 0 then addToGameLog PlayerDefeatedText System s2 else s2))"

section \<open>Reachable stores\<close>

text \<open>
  The stores that the public actions produce from the initial store of the game, where
  \<open>startCombat\<close> is only called with a roster that is not empty. The enemy turn that
  \<open>attackEnemy\<close> defers may run at any later time, so it is an action of its own.
\<close>

inductive reachable :: "GameState \<Rightarrow> bool" where
  initial: "reachable initialState"
| createNewCharacter:
    "reachable s \<Longrightarrow> reachable (createNewCharacter newId name description cls rel s)"
| startCombat: "reachable s \<Longrightarrow> es \<noteq> [] \<Longrightarrow> reachable (startCombat es s)"
| attackEnemy: "reachable s \<Longrightarrow> reachable (fst (attackEnemy enemyId abilityName roll s))"
| enemyTurn: "reachable s \<Longrightarrow> reachable (enemyTurn s)"
| endCombat: "reachable s \<Longrightarrow> reachable (endCombat s)"
| moveToLocation: "reachable s \<Longrightarrow> reachable (moveToLocation locationId encounterRoll s)"
| useItem: "reachable s \<Longrightarrow> reachable (useItem itemId s)"
| gainExperience: "reachable s \<Longrightarrow> reachable (gainExperience amount s)"
| addItemToInventory: "reachable s \<Longrightarrow> reachable (addItemToInventory item s)"
| removeItemFromInventory: "reachable s \<Longrightarrow> reachable (removeItemFromInventory itemId s)"

text \<open>An item none of whose heals on self has a negative amount.\<close>

definition healsNonNegative :: "Item \<Rightarrow> bool" where
  "healsNonNegative item \<longleftrightarrow>
     (\<forall>e \<in> set (case item_effects item of None \<Rightarrow> [] | Some effs \<Rightarrow> effs).
        effect_type e = Heal \<and> effect_target e = Self \<longrightarrow> 0 \<le> effect_amount e)"

text \<open>
  The stores that the engine actions produce from a freshly created character, where
  every item handed to \<open>addItemToInventory\<close> has no negative heal on self. Enemy
  rosters, experience amounts and damage rolls are arbitrary.
\<close>

inductive played :: "GameState \<Rightarrow> bool" where
  fresh: "played (createNewCharacter newId name description cls rel initialState)"
| createNewCharacter:
    "played s \<Longrightarrow> played (createNewCharacter newId name description cls rel s)"
| gainExperience: "played s \<Longrightarrow> played (gainExperience amount s)"
| addItemToInventory:
    "played s \<Longrightarrow> healsNonNegative item \<Longrightarrow> played (addItemToInventory item s)"
| removeItemFromInventory: "played s \<Longrightarrow> played (removeItemFromInventory itemId s)"
| useItem: "played s \<Longrightarrow> played (useItem itemId s)"
| moveToLocation: "played s \<Longrightarrow> played (moveToLocation locationId encounterRoll s)"
| startCombat: "played s \<Longrightarrow> played (startCombat es s)"
| attackEnemy: "played s \<Longrightarrow> played (fst (attackEnemy enemyId abilityName roll s))"
| enemyTurn: "played s \<Longrightarrow> played (enemyTurn s)"
| endCombat: "played s \<Longrightarrow> played (endCombat s)"

text \<open>The invariant that carries the bounds on health and mana through every action.\<close>

definition soundCharacter :: "Character \<Rightarrow> bool" where
  "soundCharacter c \<longleftrightarrow>
     0 \<le> health c \<and> health c \<le> maxHealth c \<and> 0 \<le> mana c \<and> mana c \<le> maxMana c
     \<and> 0 \<le> constitution (stats c) \<and> 0 \<le> intelligence (stats c)
     \<and> (\<forall>item \<in> set (inventory c). healsNonNegative item)"

definition soundStore :: "GameState \<Rightarrow> bool" where
  "soundStore s \<longleftrightarrow> (case character s of None \<Rightarrow> True | Some c \<Rightarrow> soundCharacter c)"

section \<open>Example data\<close>

text \<open>Concrete items, enemies and stores on which the theorems below are exercised.\<close>

definition healingPotion :: Item where
  "healingPotion = \<lparr>
     item_id = ''potion1'', item_name = ''Healing Potion'',
     item_description = ''A vial of red liquid.'',
     item_type = Potion, item_rarity = Common, item_value = 5,
     item_effects = Some [\<lparr>effect_type = Heal, effect_target = Self,
                           effect_amount = 20, effect_duration = None\<rparr>],
     usable = True\<rparr>"

definition twinTonic :: Item where
  "twinTonic = \<lparr>
     item_id = ''tonic1'', item_name = ''Twin Tonic'',
     item_description = ''Two draughts in one flask.'',
     item_type = Potion, item_rarity = Uncommon, item_value = 8,
     item_effects = Some [\<lparr>effect_type = Heal, effect_target = Self,
                           effect_amount = 5, effect_duration = None\<rparr>,
                          \<lparr>effect_type = Heal, effect_target = Self,
                           effect_amount = 7, effect_duration = None\<rparr>],
     usable = True\<rparr>"

definition rustySword :: Item where
  "rustySword = \<lparr>
     item_id = ''sword1'', item_name = ''Rusty Sword'',
     item_description = ''A pitted blade.'',
     item_type = Weapon, item_rarity = Common, item_value = 2,
     item_effects = None,
     usable = False\<rparr>"

definition bitterDraught :: Item where
  "bitterDraught = \<lparr>
     item_id = ''draught1'', item_name = ''Bitter Draught'',
     item_description = ''It smells of iron.'',
     item_type = Potion, item_rarity = Rare, item_value = 1,
     item_effects = Some [\<lparr>effect_type = Heal, effect_target = Self,
                           effect_amount = - 100, effect_duration = None\<rparr>],
     usable = True\<rparr>"

definition caveRat :: Enemy where
  "caveRat = \<lparr>
     enemy_id = ''rat1'', enemy_name = ''Cave Rat'',
     enemy_description = ''A lean grey rat.'',
     enemy_level = 1, enemy_health = 1, enemy_maxHealth = 1,
     enemy_stats = \<lparr>enemy_strength = 1, enemy_dexterity = 1, enemy_constitution = 1\<rparr>,
     enemy_abilities = [],
     drops = [healingPotion],
     enemy_experience = 10,
     enemy_gold = 5\<rparr>"

definition warrior0 :: GameState where
  "warrior0 = createNewCharacter ''id-1'' ''Ana'' ''a fighter'' Warrior BladeOfEmber initialState"

definition warriorCharacter :: Character where
  "warriorCharacter = \<lparr>
      char_id = ''id-1'', char_name = ''Ana'', char_description = ''a fighter'',
      char_class = Warrior, relic = BladeOfEmber, level = 1, experience = 0,
      health = 55, maxHealth = 55, mana = 30, maxMana = 30,
      inventory = [], stats = \<lparr>strength = 8, dexterity = 5, constitution = 7,
                                 intelligence = 3, wisdom = 4, charisma = 5\<rparr>,
      abilities = [], gold = 10\<rparr>"

definition strongPotion :: Item where
  "strongPotion = \<lparr>
     item_id = ''potion1'', item_name = ''Strong Potion'',
     item_description = ''A larger vial under the same label.'',
     item_type = Potion, item_rarity = Rare, item_value = 12,
     item_effects = Some [\<lparr>effect_type = Heal, effect_target = Self,
                           effect_amount = 50, effect_duration = None\<rparr>],
     usable = True\<rparr>"

definition packCharacter :: Character where
  "packCharacter = warriorCharacter\<lparr>health := 10,
     inventory := [healingPotion, rustySword, strongPotion]\<rparr>"

definition packState :: GameState where
  "packState = warrior0\<lparr>character := Some packCharacter\<rparr>"

definition tonicState :: GameState where
  "tonicState = warrior0\<lparr>character := Some (warriorCharacter\<lparr>health := 10,
     inventory := [twinTonic]\<rparr>)\<rparr>"

definition ratFight :: GameState where
  "ratFight = startCombat [caveRat] warrior0"

definition packFightCombat :: CombatState where
  "packFightCombat = \<lparr>inCombat = True, enemies = [caveRat, shadowWolf], playerTurn = True,
     round = 1, combatLog = []\<rparr>"

definition packFight :: GameState where
  "packFight = startCombat [caveRat, shadowWolf] warrior0"

definition wolfFight :: GameState where
  "wolfFight = startCombat [shadowWolf] warrior0"

section \<open>Character creation\<close>

text \<open>
  Claim C9. For every class, \<open>createNewCharacter\<close> stores a character whose health and
  maximum health are \<open>20 + 5 * constitution\<close> and whose mana and maximum mana are
  \<open>10 * intelligence\<close> of the base stats of the class, with 10 gold, level 1, no
  experience and an empty inventory; the four listed classes have the base stats of the
  fixed table. The action is a total function: there is no error outcome.
\<close>

theorem createNewCharacter_initial:
  "character (createNewCharacter newId name description cls rel s) = Some \<lparr>
      char_id = newId, char_name = name, char_description = description,
      char_class = cls, relic = rel, level = 1, experience = 0,
      health = 20 + 5 * constitution (getBaseStats cls),
      maxHealth = 20 + 5 * constitution (getBaseStats cls),
      mana = 10 * intelligence (getBaseStats cls),
      maxMana = 10 * intelligence (getBaseStats cls),
      inventory = [], stats = getBaseStats cls, abilities = [], gold = 10\<rparr>
   \<and> getBaseStats Warrior = \<lparr>strength = 8, dexterity = 5, constitution = 7,
                              intelligence = 3, wisdom = 4, charisma = 5\<rparr>
   \<and> getBaseStats Mage = \<lparr>strength = 3, dexterity = 4, constitution = 4,
                           intelligence = 8, wisdom = 7, charisma = 6\<rparr>
   \<and> getBaseStats Rogue = \<lparr>strength = 5, dexterity = 8, constitution = 5,
                            intelligence = 6, wisdom = 4, charisma = 6\<rparr>
   \<and> getBaseStats Cleric = \<lparr>strength = 5, dexterity = 4, constitution = 6,
                             intelligence = 5, wisdom = 8, charisma = 7\<rparr>"
  by (simp add: createNewCharacter_def getBaseStats_def Let_def)

section \<open>The deferred enemy turn\<close>

text \<open>
  Claim C6. When the callback scheduled by \<open>attackEnemy\<close> runs on a store whose combat
  or whose character has been cleared, it returns the store as it found it: health,
  combat and game log are untouched. The callback has no argument besides the store it
  reads when it runs, so nothing bound at scheduling time can reach it.
\<close>

theorem enemyTurn_stale_noop:
  "combat s = None \<or> character s = None \<Longrightarrow> enemyTurn s = s"
  by (auto simp: enemyTurn_def split: option.splits)

text \<open>
  An attack on the wolf that does not kill it schedules the enemy turn; the combat is then
  ended before the turn runs. The character is still there, the combat is gone, and
  the late enemy turn changes nothing. The same holds in the initial store.
\<close>

theorem enemyTurn_stale_noop_witness:
  "snd (attackEnemy ''wolf1'' ''Basic Attack'' 0 wolfFight) = True
   \<and> (combat (endCombat (fst (attackEnemy ''wolf1'' ''Basic Attack'' 0 wolfFight))) = None
        \<or> character (endCombat (fst (attackEnemy ''wolf1'' ''Basic Attack'' 0 wolfFight))) = None)
   \<and> character (endCombat (fst (attackEnemy ''wolf1'' ''Basic Attack'' 0 wolfFight))) \<noteq> None
   \<and> enemyTurn (endCombat (fst (attackEnemy ''wolf1'' ''Basic Attack'' 0 wolfFight)))
       = endCombat (fst (attackEnemy ''wolf1'' ''Basic Attack'' 0 wolfFight))
   \<and> (combat initialState = None \<or> character initialState = None)
   \<and> enemyTurn initialState = initialState"
proof -
  have scheduled: "snd (attackEnemy ''wolf1'' ''Basic Attack'' 0 wolfFight) = True"
    by (simp add: wolfFight_def shadowWolf_def warrior0_def createNewCharacter_def
        getBaseStats_def initialState_def startCombat_def attackEnemy_def
        attackEnemy_newHealth_def calculateDamage_def addToGameLog_def Let_def)
  have cleared:
    "combat (endCombat (fst (attackEnemy ''wolf1'' ''Basic Attack'' 0 wolfFight))) = None"
    "character (endCombat (fst (attackEnemy ''wolf1'' ''Basic Attack'' 0 wolfFight))) \<noteq> None"
    by (simp_all add: wolfFight_def shadowWolf_def warrior0_def createNewCharacter_def
        getBaseStats_def initialState_def startCombat_def attackEnemy_def
        attackEnemy_blow_def attackEnemy_newHealth_def attackEnemy_newEnemies_def
        calculateDamage_def endCombat_def endCombat_enemy_def gainExperience_def
        addToGameLog_def Let_def)
  show ?thesis
    using enemyTurn_stale_noop [of "endCombat (fst (attackEnemy ''wolf1'' ''Basic Attack'' 0 wolfFight))"]
          enemyTurn_stale_noop [of initialState]
          scheduled cleared
    by (simp add: initialState_def)
qed

section \<open>Auxiliary facts\<close>

lemma findIndex_None_iff: "findIndex P xs = None \<longleftrightarrow> (\<forall>x \<in> set xs. \<not> P x)"
  by (induction xs) auto


lemma find_hd_filter: "filter P xs \<noteq> [] \<Longrightarrow> find P xs = Some (hd (filter P xs))"
  by (induction xs) auto

lemma warrior0_character: "character warrior0 = Some warriorCharacter"
  by (simp add: warrior0_def warriorCharacter_def createNewCharacter_def getBaseStats_def Let_def)

lemma warrior0_state:
  "warrior0 = \<lparr>character = Some warriorCharacter, currentLocation = None, gameLog = [],
               quests = [], combat = None, visitedLocations = [], gameTime = 0\<rparr>"
  by (simp add: warrior0_def warriorCharacter_def createNewCharacter_def getBaseStats_def
      initialState_def Let_def)

text \<open>
  What the loop over the effects of a used item leaves behind: the character written by
  the last heal on self (computed from the character bound before the loop), and one log
  entry for each such heal.
\<close>

lemma fold_useItem_effect:
  "fold (useItem_effect c it) effs st =
     st\<lparr>character :=
          (if filter (\<lambda>e. effect_type e = Heal \<and> effect_target e = Self) effs = []
           then character st
           else Some (c\<lparr>health := min (health c + effect_amount
                       (last (filter (\<lambda>e. effect_type e = Heal \<and> effect_target e = Self) effs)))
                       (maxHealth c)\<rparr>)),
        gameLog := gameLog st @
          map (\<lambda>e. \<lparr>log_text = UsedItemText (item_name it) (effect_amount e), log_type = System\<rparr>)
            (filter (\<lambda>e. effect_type e = Heal \<and> effect_target e = Self) effs)\<rparr>"
proof (induction effs rule: rev_induct)
  case Nil
  show ?case by simp
next
  case (snoc e effs)
  have step: "useItem_effect c it e st' =
      (if effect_type e = Heal \<and> effect_target e = Self
       then st'\<lparr>character := Some (c\<lparr>health := min (health c + effect_amount e) (maxHealth c)\<rparr>),
               gameLog := gameLog st' @
                 [\<lparr>log_text = UsedItemText (item_name it) (effect_amount e), log_type = System\<rparr>]\<rparr>
       else st')" for st'
    by (simp add: useItem_effect_def addToGameLog_def Let_def)
  show ?case
    by (simp add: snoc.IH step)
qed

section \<open>Experience and levels\<close>

text \<open>
  Claim C4. A character of a listed class at level 1 with no experience that gains 150
  experience is at level 2 with 50 experience, its stats grown by the table of its class
  (Warrior +2 strength, +1 constitution; Mage +2 intelligence, +1 wisdom; Rogue
  +2 dexterity, +1 charisma; Cleric +2 wisdom, +1 constitution), maximum health
  \<open>20 + 5 * constitution\<close> and maximum mana \<open>10 * intelligence\<close> of the grown stats, and
  health and mana at these maxima. In general the threshold is 100 times the level
  before the gain, and a call raises the level by one at most: whenever the threshold
  is reached the level goes up by exactly one and the threshold is subtracted once,
  however large the amount.
\<close>

theorem gainExperience_level_up:
  assumes "character s = Some c"
  shows "(level c = 1 \<and> experience c = 0 \<and> char_class c \<noteq> UnlistedClass \<longrightarrow>
            character (gainExperience 150 s) =
              Some (let grown =
                      (case char_class c of
                         Warrior \<Rightarrow> (stats c)\<lparr>strength := strength (stats c) + 2,
                                               constitution := constitution (stats c) + 1\<rparr>
                       | Mage \<Rightarrow> (stats c)\<lparr>intelligence := intelligence (stats c) + 2,
                                            wisdom := wisdom (stats c) + 1\<rparr>
                       | Rogue \<Rightarrow> (stats c)\<lparr>dexterity := dexterity (stats c) + 2,
                                             charisma := charisma (stats c) + 1\<rparr>
                       | Cleric \<Rightarrow> (stats c)\<lparr>wisdom := wisdom (stats c) + 2,
                                              constitution := constitution (stats c) + 1\<rparr>
                       | UnlistedClass \<Rightarrow> stats c)
                    in c\<lparr>level := 2, experience := 50, stats := grown,
                         maxHealth := 20 + 5 * constitution grown,
                         health := 20 + 5 * constitution grown,
                         maxMana := 10 * intelligence grown,
                         mana := 10 * intelligence grown\<rparr>))
       \<and> (level c * 100 \<le> experience c + amount \<longrightarrow>
            map_option level (character (gainExperience amount s)) = Some (level c + 1)
            \<and> map_option experience (character (gainExperience amount s))
                = Some (experience c + amount - level c * 100))
       \<and> (experience c + amount < level c * 100 \<longrightarrow>
            character (gainExperience amount s) = Some (c\<lparr>experience := experience c + amount\<rparr>))"
  using assms
  by (cases "char_class c")
     (simp_all add: gainExperience_def gainExperience_newStats_def addToGameLog_def Let_def)

theorem gainExperience_level_up_witness:
  "character warrior0 = Some warriorCharacter
   \<and> level warriorCharacter = 1 \<and> experience warriorCharacter = 0
   \<and> char_class warriorCharacter \<noteq> UnlistedClass
   \<and> character (gainExperience 150 warrior0) =
        Some (warriorCharacter\<lparr>level := 2, experience := 50,
                stats := \<lparr>strength = 10, dexterity = 5, constitution = 8,
                          intelligence = 3, wisdom = 4, charisma = 5\<rparr>,
                maxHealth := 60, health := 60, maxMana := 30, mana := 30\<rparr>)
   \<and> level warriorCharacter * 100 \<le> experience warriorCharacter + 1000
   \<and> map_option level (character (gainExperience 1000 warrior0)) = Some 2
   \<and> map_option experience (character (gainExperience 1000 warrior0)) = Some 900
   \<and> experience warriorCharacter + 30 < level warriorCharacter * 100
   \<and> character (gainExperience 30 warrior0) = Some (warriorCharacter\<lparr>experience := 30\<rparr>)"
  using gainExperience_level_up [OF warrior0_character, of 1000]
        gainExperience_level_up [OF warrior0_character, of 30]
  by (simp add: warrior0_character warriorCharacter_def Let_def)

section \<open>Using items\<close>

text \<open>
  Claim C10. When the inventory holds two or more items with the given id and the first
  of them is usable, \<open>useItem\<close> takes its effects from that first item alone (the health
  written and the log entries are those of its heals on self), and the inventory that
  remains is the old one without any item of that id: every duplicate is removed, not
  only the one that was used.
\<close>

theorem useItem_duplicate_ids:
  assumes "character s = Some c"
    and "2 \<le> length (filter (\<lambda>i. item_id i = itemId) (inventory c))"
    and "usable (hd (filter (\<lambda>i. item_id i = itemId) (inventory c)))"
  shows "useItem itemId s =
     (let first = hd (filter (\<lambda>i. item_id i = itemId) (inventory c));
          heals = filter (\<lambda>e. effect_type e = Heal \<and> effect_target e = Self)
                    (case item_effects first of None \<Rightarrow> [] | Some effs \<Rightarrow> effs)
      in s\<lparr>character := Some (c\<lparr>
              health := (if heals = [] then health c
                         else min (health c + effect_amount (last heals)) (maxHealth c)),
              inventory := filter (\<lambda>i. item_id i \<noteq> itemId) (inventory c)\<rparr>),
            gameLog := gameLog s @
              map (\<lambda>e. \<lparr>log_text = UsedItemText (item_name first) (effect_amount e),
                        log_type = System\<rparr>) heals\<rparr>)"
proof -
  from assms(2) have ne: "filter (\<lambda>i. item_id i = itemId) (inventory c) \<noteq> []"
    by auto
  have found: "find (\<lambda>i. item_id i = itemId) (inventory c)
                 = Some (hd (filter (\<lambda>i. item_id i = itemId) (inventory c)))"
    by (rule find_hd_filter [OF ne])
  show ?thesis
  proof (cases "item_effects (hd (filter (\<lambda>i. item_id i = itemId) (inventory c)))")
    case None
    with assms(1,3) found show ?thesis
      by (simp add: useItem_def removeItemFromInventory_def Let_def)
  next
    case (Some effs)
    with assms(1,3) found show ?thesis
      by (simp add: useItem_def removeItemFromInventory_def fold_useItem_effect Let_def)
  qed
qed

lemma packState_character: "character packState = Some packCharacter"
  by (simp add: packState_def)

lemma packFight_combat: "combat packFight = Some packFightCombat"
  by (simp add: packFight_def packFightCombat_def startCombat_def addToGameLog_def Let_def)


theorem useItem_duplicate_ids_witness:
  "character packState = Some packCharacter
   \<and> 2 \<le> length (filter (\<lambda>i. item_id i = ''potion1'') (inventory packCharacter))
   \<and> usable (hd (filter (\<lambda>i. item_id i = ''potion1'') (inventory packCharacter)))
   \<and> useItem ''potion1'' packState =
       packState\<lparr>character := Some (packCharacter\<lparr>health := 30, inventory := [rustySword]\<rparr>),
                 gameLog := [\<lparr>log_text = UsedItemText ''Healing Potion'' 20, log_type = System\<rparr>]\<rparr>"
  using useItem_duplicate_ids [OF packState_character, of "''potion1''"]
  by (simp add: packState_def packCharacter_def warriorCharacter_def warrior0_state
      healingPotion_def strongPotion_def rustySword_def Let_def)

text \<open>
  Claim C2. The claim has every heal on self add to the health the previous heal left.
  The source computes each heal from the character bound before the loop, so of several
  heals only the last one counts. On a character with 10 of 55 health, an item with a
  heal of 5 and a heal of 7 leaves 17 health (not 22), logs both heals and is removed.
\<close>

theorem useItem_two_heals:
  "map_option health (character tonicState) = Some 10
   \<and> map_option maxHealth (character tonicState) = Some 55
   \<and> map_option health (character (useItem ''tonic1'' tonicState)) = Some 17
   \<and> map_option inventory (character (useItem ''tonic1'' tonicState)) = Some []
   \<and> gameLog (useItem ''tonic1'' tonicState) =
       [\<lparr>log_text = UsedItemText ''Twin Tonic'' 5, log_type = System\<rparr>,
        \<lparr>log_text = UsedItemText ''Twin Tonic'' 7, log_type = System\<rparr>]"
  by (simp add: tonicState_def twinTonic_def warriorCharacter_def warrior0_state
      useItem_def useItem_effect_def removeItemFromInventory_def addToGameLog_def Let_def)

section \<open>Combat\<close>

text \<open>
  Claim C1. The claim has the last enemy's experience, gold and drops granted once. In
  the source \<open>endCombat\<close> writes the gold into the character it bound before the drops
  were added and the experience gained, which discards both. A level 1 warrior with 10
  gold, no experience and an empty inventory strikes the only enemy of the roster, which
  has 1 health, 10 experience, 5 gold and a potion to drop: the combat is cleared and
  the gold is 15, the log reports 10 experience gained, and yet the experience is still
  0 and the inventory still empty.
\<close>

theorem attackEnemy_last_enemy_rewards:
  "map_option enemies (combat ratFight) = Some [caveRat]
   \<and> character ratFight = Some warriorCharacter
   \<and> snd (attackEnemy ''rat1'' ''Basic Attack'' 0 ratFight) = False
   \<and> combat (fst (attackEnemy ''rat1'' ''Basic Attack'' 0 ratFight)) = None
   \<and> character (fst (attackEnemy ''rat1'' ''Basic Attack'' 0 ratFight))
       = Some (warriorCharacter\<lparr>gold := 15\<rparr>)
   \<and> map_option experience (character (fst (attackEnemy ''rat1'' ''Basic Attack'' 0 ratFight)))
       = Some 0
   \<and> map_option inventory (character (fst (attackEnemy ''rat1'' ''Basic Attack'' 0 ratFight)))
       = Some []
   \<and> gameLog (fst (attackEnemy ''rat1'' ''Basic Attack'' 0 ratFight)) =
       [\<lparr>log_text = CombatStartedText [''Cave Rat''], log_type = Combat\<rparr>,
        \<lparr>log_text = HitText ''Cave Rat'' 12, log_type = Combat\<rparr>,
        \<lparr>log_text = DefeatedText ''Cave Rat'', log_type = Combat\<rparr>,
        \<lparr>log_text = GainedExperienceText 10, log_type = System\<rparr>,
        \<lparr>log_text = CombatEndedText 10 5, log_type = Combat\<rparr>]"
  by (simp add: ratFight_def caveRat_def healingPotion_def warriorCharacter_def warrior0_state
      startCombat_def attackEnemy_def attackEnemy_blow_def attackEnemy_newHealth_def
      attackEnemy_newEnemies_def calculateDamage_def endCombat_def endCombat_enemy_def
      addItemToInventory_def gainExperience_def addToGameLog_def Let_def)



section \<open>Invalid targets\<close>

text \<open>
  The actions that return the store unchanged on an invalid target: \<open>useItem\<close> without
  a character, with an id that no item of the inventory has, or with the id of an item
  that is not usable; \<open>moveToLocation\<close> with an id that is neither a key of the catalog
  nor a property name of \<open>Object.prototype\<close>; \<open>attackEnemy\<close> without a combat or a
  character, or with an id that no enemy of the roster has (it schedules no enemy turn
  either); \<open>endCombat\<close> without a combat or a character; \<open>gainExperience\<close> without a
  character.
\<close>

lemma invalid_target_noop_others:
  "(character s = None \<longrightarrow> useItem itemId s = s)
   \<and> (character s = Some c \<and> itemId \<notin> set (map item_id (inventory c)) \<longrightarrow> useItem itemId s = s)
   \<and> (character s = Some c \<and> find (\<lambda>i. item_id i = itemId) (inventory c) = Some item
        \<and> \<not> usable item \<longrightarrow> useItem itemId s = s)
   \<and> (locationId \<notin> dom locations \<and> locationId \<notin> set objectPrototypeKeys \<longrightarrow>
        moveToLocation locationId encounterRoll s = s)
   \<and> (combat s = None \<or> character s = None \<longrightarrow> attackEnemy enemyId abilityName roll s = (s, False))
   \<and> (combat s = Some cb \<and> enemyId \<notin> set (map enemy_id (enemies cb)) \<longrightarrow>
        attackEnemy enemyId abilityName roll s = (s, False))
   \<and> (combat s = None \<or> character s = None \<longrightarrow> endCombat s = s)
   \<and> (character s = None \<longrightarrow> gainExperience amount s = s)"
proof -
  have absent: "find (\<lambda>i. item_id i = itemId) (inventory c) = None"
    if "itemId \<notin> set (map item_id (inventory c))"
    using that by (auto simp: find_None_iff)
  have noIndex: "findIndex (\<lambda>e. enemy_id e = enemyId) (enemies cb) = None"
    if "enemyId \<notin> set (map enemy_id (enemies cb))"
    using that by (auto simp: findIndex_None_iff)
  have u1: "character s = None \<longrightarrow> useItem itemId s = s"
    by (simp add: useItem_def)
  have u2: "character s = Some c \<and> itemId \<notin> set (map item_id (inventory c)) \<longrightarrow> useItem itemId s = s"
    using absent by (simp add: useItem_def)
  have u3: "character s = Some c \<and> find (\<lambda>i. item_id i = itemId) (inventory c) = Some item
        \<and> \<not> usable item \<longrightarrow> useItem itemId s = s"
    by (simp add: useItem_def)
  have m: "locationId \<notin> dom locations \<and> locationId \<notin> set objectPrototypeKeys \<longrightarrow>
        moveToLocation locationId encounterRoll s = s"
    by (auto simp: moveToLocation_def locations_lookup_def domIff)
  have a1: "combat s = None \<or> character s = None \<longrightarrow> attackEnemy enemyId abilityName roll s = (s, False)"
    by (auto simp: attackEnemy_def split: option.splits)
  have a2: "combat s = Some cb \<and> enemyId \<notin> set (map enemy_id (enemies cb)) \<longrightarrow>
        attackEnemy enemyId abilityName roll s = (s, False)"
    using noIndex by (auto simp: attackEnemy_def split: option.splits)
  have e: "combat s = None \<or> character s = None \<longrightarrow> endCombat s = s"
    by (auto simp: endCombat_def split: option.splits)
  have g: "character s = None \<longrightarrow> gainExperience amount s = s"
    by (simp add: gainExperience_def)
  from u1 u2 u3 m a1 a2 e g show ?thesis by blast
qed

lemma invalid_target_noop_others_example:
  "character initialState = None \<and> combat initialState = None
   \<and> useItem ''potion1'' initialState = initialState
   \<and> attackEnemy ''wolf1'' ''Basic Attack'' 1 initialState = (initialState, False)
   \<and> endCombat initialState = initialState
   \<and> gainExperience 50 initialState = initialState
   \<and> character packState = Some packCharacter
   \<and> ''ghost'' \<notin> set (map item_id (inventory packCharacter))
   \<and> useItem ''ghost'' packState = packState
   \<and> find (\<lambda>i. item_id i = ''sword1'') (inventory packCharacter) = Some rustySword
   \<and> \<not> usable rustySword
   \<and> useItem ''sword1'' packState = packState
   \<and> ''moon'' \<notin> dom locations \<and> ''moon'' \<notin> set objectPrototypeKeys
   \<and> moveToLocation ''moon'' True packState = packState
   \<and> combat packFight = Some packFightCombat
   \<and> ''ghost'' \<notin> set (map enemy_id (enemies packFightCombat))
   \<and> attackEnemy ''ghost'' ''Basic Attack'' 1 packFight = (packFight, False)"
proof -
  have h1: "character initialState = None" "combat initialState = None"
    by (simp_all add: initialState_def)
  have h2: "''ghost'' \<notin> set (map item_id (inventory packCharacter))"
    by (simp add: packCharacter_def healingPotion_def rustySword_def strongPotion_def)
  have h3: "find (\<lambda>i. item_id i = ''sword1'') (inventory packCharacter) = Some rustySword"
    "\<not> usable rustySword"
    by (simp_all add: packCharacter_def healingPotion_def rustySword_def strongPotion_def)
  have h4: "''moon'' \<notin> dom locations" "''moon'' \<notin> set objectPrototypeKeys"
    by (simp_all add: locations_def dom_map_of_conv_image_fst objectPrototypeKeys_def)
  have h5: "''ghost'' \<notin> set (map enemy_id (enemies packFightCombat))"
    by (simp add: packFightCombat_def caveRat_def shadowWolf_def)
  show ?thesis
    using invalid_target_noop_others [where s = initialState and itemId = "''potion1''"
            and enemyId = "''wolf1''" and abilityName = "''Basic Attack''" and roll = 1
            and amount = 50]
          invalid_target_noop_others [where s = packState and c = packCharacter
            and itemId = "''ghost''" and locationId = "''moon''" and encounterRoll = True]
          invalid_target_noop_others [where s = packState and c = packCharacter
            and itemId = "''sword1''" and item = rustySword]
          invalid_target_noop_others [where s = packFight and cb = packFightCombat
            and enemyId = "''ghost''" and abilityName = "''Basic Attack''" and roll = 1]
          h1 h2 h3 h4 h5 packState_character packFight_combat
    by simp
qed

text \<open>
  Claim C7. The claim has every action with an invalid target leave the store unchanged,
  among them \<open>moveToLocation\<close> with an id that is not in the world catalog. The source
  rejects an id by testing what \<open>locations[locationId]\<close> returns, and for an id such as
  \<open>constructor\<close> the lookup returns the member that the object literal inherits from
  \<open>Object.prototype\<close>, which passes the test. The id \<open>constructor\<close> is not a key of the
  catalog, and yet the move from the initial store records it as visited, makes the
  inherited member the current location and logs a move to \<open>Object\<close>; whether the
  encounter roll succeeds makes no difference. The other cases of the claim hold, as
  the lemma before this one shows.
\<close>

theorem moveToLocation_inherited_key:
  "''constructor'' \<notin> dom locations
   \<and> moveToLocation ''constructor'' False initialState =
       initialState\<lparr>currentLocation := Some (InheritedMember ''constructor''),
                    visitedLocations := [''constructor''],
                    gameLog := [\<lparr>log_text = MovedText ''Object'', log_type = Narrative\<rparr>]\<rparr>
   \<and> moveToLocation ''constructor'' True initialState
       = moveToLocation ''constructor'' False initialState
   \<and> moveToLocation ''constructor'' False initialState \<noteq> initialState"
  by (simp add: locations_def dom_map_of_conv_image_fst objectPrototypeKeys_def
      locations_lookup_def location_enemies_def location_name_def moveToLocation_def
      addToGameLog_def initialState_def Let_def)

section \<open>The roster of an active combat\<close>

lemma combat_addToGameLog: "combat (addToGameLog t ty s) = combat s"
  by (simp add: addToGameLog_def)

lemma character_addToGameLog: "character (addToGameLog t ty s) = character s"
  by (simp add: addToGameLog_def)

lemma combat_createNewCharacter: "combat (createNewCharacter i n d cls r s) = combat s"
  by (simp add: createNewCharacter_def Let_def)

lemma combat_addItemToInventory: "combat (addItemToInventory item s) = combat s"
  by (simp add: addItemToInventory_def split: option.splits)

lemma combat_removeItemFromInventory: "combat (removeItemFromInventory itemId s) = combat s"
  by (simp add: removeItemFromInventory_def split: option.splits)

lemma combat_gainExperience: "combat (gainExperience amount s) = combat s"
  by (simp add: gainExperience_def addToGameLog_def Let_def split: option.splits)

lemma combat_useItem: "combat (useItem itemId s) = combat s"
  by (simp add: useItem_def fold_useItem_effect combat_removeItemFromInventory Let_def
      split: option.splits)

lemma combat_startCombat:
  "combat (startCombat es s) =
     Some \<lparr>inCombat = True, enemies = es, playerTurn = True, round = 1, combatLog = []\<rparr>"
  by (simp add: startCombat_def addToGameLog_def Let_def)

lemma combat_endCombat:
  "combat (endCombat s) = (if character s = None then combat s else None)"
  by (simp add: endCombat_def Let_def split: option.splits prod.splits)

lemma combat_enemyTurn:
  "combat (enemyTurn s) =
     (case combat s of
        None \<Rightarrow> None
      | Some cb \<Rightarrow> (if character s = None then Some cb else Some (cb\<lparr>playerTurn := True\<rparr>)))"
  by (auto simp: enemyTurn_def addToGameLog_def Let_def split: option.splits)

lemma combat_moveToLocation:
  "combat (moveToLocation locationId encounterRoll s) = combat s
   \<or> (\<exists>es. es \<noteq> [] \<and> combat (moveToLocation locationId encounterRoll s) =
         Some \<lparr>inCombat = True, enemies = es, playerTurn = True, round = 1, combatLog = []\<rparr>)"
  by (auto simp: moveToLocation_def combat_startCombat addToGameLog_def Let_def
      split: option.splits)

text \<open>What \<open>attackEnemy\<close> can leave as combat: the old one, none, or a roster that is
  not empty.\<close>

lemma combat_attackEnemy:
  assumes "combat s = Some cb" and "enemies cb \<noteq> []"
  shows "combat (fst (attackEnemy enemyId abilityName roll s)) = None
     \<or> (\<exists>cb'. combat (fst (attackEnemy enemyId abilityName roll s)) = Some cb'
            \<and> enemies cb' \<noteq> [])"
proof (cases "character s")
  case None
  with assms show ?thesis by (simp add: attackEnemy_def)
next
  case (Some c)
  show ?thesis
  proof (cases "findIndex (\<lambda>e. enemy_id e = enemyId) (enemies cb)")
    case None
    with assms Some show ?thesis by (simp add: attackEnemy_def)
  next
    case (Some i)
    have len: "attackEnemy_newEnemies cb c i roll \<noteq> []"
      using assms(2) by (simp add: attackEnemy_newEnemies_def Let_def)
    show ?thesis
      using assms(1) \<open>character s = Some c\<close> Some len
      by (simp add: attackEnemy_def attackEnemy_blow_def combat_endCombat
          character_addToGameLog combat_addToGameLog Let_def)
  qed
qed

lemma reachable_roster: "reachable s \<Longrightarrow> combat s = Some cb \<Longrightarrow> enemies cb \<noteq> []"
proof (induction arbitrary: cb rule: reachable.induct)
  case initial
  then show ?case by (simp add: initialState_def)
next
  case (createNewCharacter s newId name description cls rel)
  then show ?case by (simp add: combat_createNewCharacter)
next
  case (startCombat s es)
  then show ?case by (auto simp: combat_startCombat)
next
  case (attackEnemy s enemyId abilityName roll)
  show ?case
  proof (cases "combat s")
    case None
    with attackEnemy.prems show ?thesis by (simp add: attackEnemy_def)
  next
    case (Some cb0)
    from combat_attackEnemy [OF Some attackEnemy.IH [OF Some], of enemyId abilityName roll]
      attackEnemy.prems
    show ?thesis by auto
  qed
next
  case (enemyTurn s)
  then show ?case by (auto simp: combat_enemyTurn split: option.splits if_splits)
next
  case (endCombat s)
  then show ?case by (auto simp: combat_endCombat split: if_splits)
next
  case (moveToLocation s locationId encounterRoll)
  from combat_moveToLocation [of locationId encounterRoll s] moveToLocation
  show ?case by auto
next
  case (useItem s itemId)
  then show ?case by (simp add: combat_useItem)
next
  case (gainExperience s amount)
  then show ?case by (simp add: combat_gainExperience)
next
  case (addItemToInventory s item)
  then show ?case by (simp add: combat_addItemToInventory)
next
  case (removeItemFromInventory s itemId)
  then show ?case by (simp add: combat_removeItemFromInventory)
qed

text \<open>
  Claim C3. As stated, with \<open>startCombat\<close> on any enemy list, the claim fails:
  \<open>startCombat\<close> on the empty list in the initial store leaves a combat with
  \<open>inCombat\<close> true and an empty roster.
\<close>

theorem startCombat_empty_roster:
  "map_option inCombat (combat (startCombat [] initialState)) = Some True
   \<and> map_option enemies (combat (startCombat [] initialState)) = Some []"
  by (simp add: combat_startCombat)

text \<open>
  Claim C3, amended. In every store reachable through the public actions, where
  \<open>startCombat\<close> is called with non-empty enemy lists only, a combat with \<open>inCombat\<close>
  true has a roster that is not empty.
\<close>

theorem reachable_combat_roster_nonempty:
  "reachable s \<Longrightarrow> combat s = Some cb \<Longrightarrow> inCombat cb \<Longrightarrow> enemies cb \<noteq> []"
  by (rule reachable_roster)

theorem reachable_combat_roster_nonempty_witness:
  "reachable packFight \<and> combat packFight = Some packFightCombat
   \<and> inCombat packFightCombat \<and> enemies packFightCombat \<noteq> []"
proof -
  have r: "reachable packFight"
    unfolding packFight_def warrior0_def
    by (intro reachable.startCombat reachable.createNewCharacter reachable.initial) simp
  have i: "inCombat packFightCombat"
    by (simp add: packFightCombat_def)
  from reachable_combat_roster_nonempty [OF r packFight_combat i] r i packFight_combat
  show ?thesis by simp
qed

section \<open>Bounds on health and mana\<close>

lemma soundCharacter_gold: "soundCharacter (c\<lparr>gold := g\<rparr>) = soundCharacter c"
  by (simp add: soundCharacter_def)

lemma character_startCombat: "character (startCombat es s) = character s"
  by (simp add: startCombat_def addToGameLog_def Let_def)

lemma character_moveToLocation:
  "character (moveToLocation locationId encounterRoll s) = character s"
  by (simp add: moveToLocation_def character_startCombat addToGameLog_def Let_def
      split: option.splits)

lemma character_attackEnemy_blow: "character (attackEnemy_blow cb c i roll s) = character s"
  by (simp add: attackEnemy_blow_def Let_def)

text \<open>After \<open>endCombat\<close> the character is the one bound at its start, but for the gold.\<close>

lemma character_endCombat:
  "character (endCombat s) =
     (case combat s of
        None \<Rightarrow> character s
      | Some cb \<Rightarrow>
          (case character s of
             None \<Rightarrow> None
           | Some c \<Rightarrow>
               Some (c\<lparr>gold := gold c + fst (snd (fold endCombat_enemy (enemies cb) (0, 0, s)))\<rparr>)))"
  by (simp add: endCombat_def character_addToGameLog Let_def split: option.splits prod.splits)

lemma enemy_damage_nonneg:
  "0 \<le> acc \<Longrightarrow>
   0 \<le> fold (\<lambda>enemy totalDamage.
              totalDamage + max 1 ((enemy_strength (enemy_stats enemy) * 6) div 5)) es acc"
  by (induction es arbitrary: acc) auto

lemma character_enemyTurn:
  "character (enemyTurn s) =
     (case combat s of
        None \<Rightarrow> character s
      | Some cb \<Rightarrow>
          (case character s of
             None \<Rightarrow> None
           | Some c \<Rightarrow>
               Some (c\<lparr>health := max 0 (health c -
                 fold (\<lambda>enemy totalDamage.
                         totalDamage + max 1 ((enemy_strength (enemy_stats enemy) * 6) div 5))
                   (enemies cb) 0)\<rparr>)))"
  by (simp add: enemyTurn_def character_addToGameLog Let_def split: option.splits)

lemma useItem_found:
  assumes "character s = Some c"
    and "find (\<lambda>i. item_id i = itemId) (inventory c) = Some item"
    and "usable item"
  shows "character (useItem itemId s) =
     Some (c\<lparr>health :=
              (if filter (\<lambda>e. effect_type e = Heal \<and> effect_target e = Self)
                    (case item_effects item of None \<Rightarrow> [] | Some effs \<Rightarrow> effs) = []
               then health c
               else min (health c + effect_amount
                      (last (filter (\<lambda>e. effect_type e = Heal \<and> effect_target e = Self)
                         (case item_effects item of None \<Rightarrow> [] | Some effs \<Rightarrow> effs))))
                      (maxHealth c)),
            inventory := filter (\<lambda>i. item_id i \<noteq> itemId) (inventory c)\<rparr>)"
proof (cases "item_effects item")
  case None
  with assms show ?thesis
    by (simp add: useItem_def removeItemFromInventory_def Let_def)
next
  case (Some effs)
  with assms show ?thesis
    by (simp add: useItem_def removeItemFromInventory_def fold_useItem_effect Let_def)
qed

lemma sound_createNewCharacter: "soundStore (createNewCharacter i n d cls r s)"
  by (cases cls)
     (simp_all add: soundStore_def soundCharacter_def createNewCharacter_def getBaseStats_def Let_def)

lemma sound_gainExperience:
  assumes "soundStore s"
  shows "soundStore (gainExperience amount s)"
proof (cases "character s")
  case None
  then show ?thesis by (simp add: gainExperience_def soundStore_def)
next
  case (Some c)
  with assms have c: "soundCharacter c" by (simp add: soundStore_def)
  show ?thesis
  proof (cases "level c * 100 \<le> experience c + amount")
    case True
    with Some c show ?thesis
      by (cases "char_class c")
         (simp_all add: gainExperience_def gainExperience_newStats_def addToGameLog_def
            soundStore_def soundCharacter_def Let_def)
  next
    case False
    with Some c show ?thesis
      by (simp add: gainExperience_def addToGameLog_def soundStore_def soundCharacter_def Let_def)
  qed
qed

lemma sound_addItemToInventory:
  "soundStore s \<Longrightarrow> healsNonNegative item \<Longrightarrow> soundStore (addItemToInventory item s)"
  by (auto simp: addItemToInventory_def soundStore_def soundCharacter_def split: option.splits)

lemma sound_removeItemFromInventory:
  "soundStore s \<Longrightarrow> soundStore (removeItemFromInventory itemId s)"
  by (auto simp: removeItemFromInventory_def soundStore_def soundCharacter_def split: option.splits)

lemma sound_useItem:
  assumes "soundStore s"
  shows "soundStore (useItem itemId s)"
proof (cases "character s")
  case None
  then show ?thesis by (simp add: useItem_def soundStore_def)
next
  case (Some c)
  with assms have c: "soundCharacter c" by (simp add: soundStore_def)
  show ?thesis
  proof (cases "find (\<lambda>i. item_id i = itemId) (inventory c)")
    case None
    with Some assms show ?thesis by (simp add: useItem_def)
  next
    case found: (Some item)
    show ?thesis
    proof (cases "usable item")
      case False
      with Some found assms show ?thesis by (simp add: useItem_def)
    next
      case True
      let ?heals = "filter (\<lambda>e. effect_type e = Heal \<and> effect_target e = Self)
                      (case item_effects item of None \<Rightarrow> [] | Some effs \<Rightarrow> effs)"
      from found have "item \<in> set (inventory c)"
        by (auto simp: find_Some_iff)
      with c have good: "healsNonNegative item"
        by (simp add: soundCharacter_def)
      have amount: "0 \<le> effect_amount (last ?heals)" if "?heals \<noteq> []"
      proof -
        from that have "last ?heals \<in> set ?heals" by (rule last_in_set)
        with good show ?thesis by (auto simp: healsNonNegative_def)
      qed
      from c amount show ?thesis
        by (auto simp: soundStore_def soundCharacter_def useItem_found [OF Some found True])
    qed
  qed
qed

lemma sound_endCombat: "soundStore s \<Longrightarrow> soundStore (endCombat s)"
  by (auto simp: soundStore_def character_endCombat soundCharacter_gold split: option.splits)

lemma sound_enemyTurn:
  assumes "soundStore s"
  shows "soundStore (enemyTurn s)"
proof (cases "combat s")
  case None
  with assms show ?thesis by (simp add: soundStore_def character_enemyTurn)
next
  case cb: (Some cb)
  show ?thesis
  proof (cases "character s")
    case None
    with cb show ?thesis by (simp add: soundStore_def character_enemyTurn)
  next
    case (Some c)
    with assms have c: "soundCharacter c" by (simp add: soundStore_def)
    have d: "0 \<le> fold (\<lambda>enemy totalDamage.
                    totalDamage + max 1 ((enemy_strength (enemy_stats enemy) * 6) div 5))
                  (enemies cb) 0"
      by (rule enemy_damage_nonneg) simp
    from c d have "soundCharacter (c\<lparr>health := max 0 (health c -
                 fold (\<lambda>enemy totalDamage.
                         totalDamage + max 1 ((enemy_strength (enemy_stats enemy) * 6) div 5))
                   (enemies cb) 0)\<rparr>)"
      by (simp add: soundCharacter_def)
    with cb Some show ?thesis
      by (simp add: soundStore_def character_enemyTurn)
  qed
qed

lemma sound_attackEnemy:
  assumes "soundStore s"
  shows "soundStore (fst (attackEnemy enemyId abilityName roll s))"
proof (cases "combat s")
  case None
  with assms show ?thesis by (simp add: attackEnemy_def)
next
  case cb: (Some cb)
  show ?thesis
  proof (cases "character s")
    case None
    with assms cb show ?thesis by (simp add: attackEnemy_def)
  next
    case c: (Some c)
    show ?thesis
    proof (cases "findIndex (\<lambda>e. enemy_id e = enemyId) (enemies cb)")
      case None
      with assms cb c show ?thesis by (simp add: attackEnemy_def)
    next
      case (Some i)
      have same: "soundStore (addToGameLog t ty (attackEnemy_blow cb c i roll s))" for t ty
        using assms
        by (simp add: soundStore_def character_addToGameLog character_attackEnemy_blow)
      have same2: "soundStore (addToGameLog t' ty'
                     (addToGameLog t ty (attackEnemy_blow cb c i roll s)))" for t ty t' ty'
        using assms
        by (simp add: soundStore_def character_addToGameLog character_attackEnemy_blow)
      have same3: "soundStore ((addToGameLog t' ty'
                     (addToGameLog t ty (attackEnemy_blow cb c i roll s)))\<lparr>combat := x\<rparr>)"
        for t ty t' ty' x
        using assms
        by (simp add: soundStore_def character_addToGameLog character_attackEnemy_blow)
      show ?thesis
        using cb c Some same same3 sound_endCombat [OF same2]
        by (simp add: attackEnemy_def Let_def)
    qed
  qed
qed

lemma played_sound: "played s \<Longrightarrow> soundStore s"
proof (induction rule: played.induct)
  case (fresh newId name description cls rel)
  show ?case by (rule sound_createNewCharacter)
next
  case (createNewCharacter s newId name description cls rel)
  show ?case by (rule sound_createNewCharacter)
next
  case (gainExperience s amount)
  then show ?case by (simp add: sound_gainExperience)
next
  case (addItemToInventory s item)
  then show ?case by (simp add: sound_addItemToInventory)
next
  case (removeItemFromInventory s itemId)
  then show ?case by (simp add: sound_removeItemFromInventory)
next
  case (useItem s itemId)
  then show ?case by (simp add: sound_useItem)
next
  case (moveToLocation s locationId encounterRoll)
  then show ?case by (simp add: soundStore_def character_moveToLocation)
next
  case (startCombat s es)
  then show ?case by (simp add: soundStore_def character_startCombat)
next
  case (attackEnemy s enemyId abilityName roll)
  then show ?case by (simp add: sound_attackEnemy)
next
  case (enemyTurn s)
  then show ?case by (simp add: sound_enemyTurn)
next
  case (endCombat s)
  then show ?case by (simp add: sound_endCombat)
qed

text \<open>
  Claim C8. As stated, for every sequence of engine actions, the claim fails: an item
  may carry a heal on self with a negative amount, and \<open>useItem\<close> bounds the new health
  from above only. A fresh warrior (55 health) who is given such an item with amount
  \<open>-100\<close> and uses it has \<open>-45\<close> health.
\<close>

theorem useItem_negative_heal:
  "map_option health
     (character (useItem ''draught1'' (addItemToInventory bitterDraught warrior0)))
   = Some (- 45)"
  by (simp add: bitterDraught_def warriorCharacter_def warrior0_state
      useItem_def useItem_effect_def addItemToInventory_def removeItemFromInventory_def
      addToGameLog_def Let_def)

text \<open>
  Claim C8, amended. For every sequence of engine actions (\<open>createNewCharacter\<close>,
  \<open>gainExperience\<close>, \<open>addItemToInventory\<close>, \<open>removeItemFromInventory\<close>, \<open>useItem\<close>,
  \<open>moveToLocation\<close>, \<open>startCombat\<close>, \<open>attackEnemy\<close> and its deferred enemy turn,
  \<open>endCombat\<close>) that starts from a freshly created character and in which no item handed
  to \<open>addItemToInventory\<close> has a heal on self with a negative amount, the character has
  \<open>0 \<le> health \<le> maxHealth\<close> and \<open>0 \<le> mana \<le> maxMana\<close> after every action.
\<close>

theorem played_health_mana_bounds:
  "played s \<Longrightarrow> character s = Some c \<Longrightarrow>
     0 \<le> health c \<and> health c \<le> maxHealth c \<and> 0 \<le> mana c \<and> mana c \<le> maxMana c"
  using played_sound [of s] by (simp add: soundStore_def soundCharacter_def)

theorem played_health_mana_bounds_witness:
  "played (enemyTurn (fst (attackEnemy ''wolf1'' ''Basic Attack'' 0
             (startCombat [shadowWolf] (addItemToInventory healingPotion warrior0)))))
   \<and> character (enemyTurn (fst (attackEnemy ''wolf1'' ''Basic Attack'' 0
             (startCombat [shadowWolf] (addItemToInventory healingPotion warrior0)))))
       = Some (warriorCharacter\<lparr>health := 52, inventory := [healingPotion]\<rparr>)
   \<and> 0 \<le> health (warriorCharacter\<lparr>health := 52, inventory := [healingPotion]\<rparr>)
   \<and> health (warriorCharacter\<lparr>health := 52, inventory := [healingPotion]\<rparr>)
       \<le> maxHealth (warriorCharacter\<lparr>health := 52, inventory := [healingPotion]\<rparr>)
   \<and> 0 \<le> mana (warriorCharacter\<lparr>health := 52, inventory := [healingPotion]\<rparr>)
   \<and> mana (warriorCharacter\<lparr>health := 52, inventory := [healingPotion]\<rparr>)
       \<le> maxMana (warriorCharacter\<lparr>health := 52, inventory := [healingPotion]\<rparr>)"
proof -
  have good: "healsNonNegative healingPotion"
    by (simp add: healsNonNegative_def healingPotion_def)
  have p: "played (enemyTurn (fst (attackEnemy ''wolf1'' ''Basic Attack'' 0
             (startCombat [shadowWolf] (addItemToInventory healingPotion warrior0)))))"
    unfolding warrior0_def
    by (intro played.enemyTurn played.attackEnemy played.startCombat
        played.addItemToInventory played.fresh good)
  have c: "character (enemyTurn (fst (attackEnemy ''wolf1'' ''Basic Attack'' 0
             (startCombat [shadowWolf] (addItemToInventory healingPotion warrior0)))))
       = Some (warriorCharacter\<lparr>health := 52, inventory := [healingPotion]\<rparr>)"
    by (simp add: shadowWolf_def warriorCharacter_def warrior0_state
        startCombat_def attackEnemy_def attackEnemy_blow_def attackEnemy_newHealth_def
        attackEnemy_newEnemies_def calculateDamage_def enemyTurn_def addItemToInventory_def
        addToGameLog_def Let_def)
  from played_health_mana_bounds [OF p c] p c show ?thesis by simp
qed

end
